theory Spec2Isabelle
  imports Complex_Main
begin

section \<open>PyOptik material base class\<close>

text \<open>
  A shallow embedding of \<^verbatim>\<open>PyOptik/material/base_class.py\<close>: the class
  \<^verbatim>\<open>BaseMaterial\<close> with \<^verbatim>\<open>__str__\<close>, \<^verbatim>\<open>__repr__\<close>,
  \<^verbatim>\<open>_check_wavelength\<close> and the decorator \<^verbatim>\<open>ensure_units\<close>.

  A Python float is modelled by the \<^typ>\<open>real\<close> number it denotes. Comparisons
  of two floats are exact. The conversion of a magnitude to the root unit, which decides
  a comparison across units, is rounded to double precision as the hardware does it. The
  arithmetic of the default sweep is exact. Infinities and NaN are not represented.
  Exceptions are values of \<open>py_error\<close>; a function that can raise returns
  \<open>py_error + 'a\<close>.
\<close>

subsection \<open>Double precision\<close>

text \<open>
  Rounding of a real number to the nearest double, ties to even: the absolute value is
  scaled by powers of two until its integer part has 53 bits, rounded to an integer, and
  scaled back. The fuel covers the exponent range of doubles; overflow and the loss of
  precision of subnormal numbers are not represented.
\<close>

definition round_half_even :: "real \<Rightarrow> int" where
  "round_half_even x =
     (if x - of_int \<lfloor>x\<rfloor> < 1 / 2 then \<lfloor>x\<rfloor>
      else if 1 / 2 < x - of_int \<lfloor>x\<rfloor> then \<lfloor>x\<rfloor> + 1
      else if even \<lfloor>x\<rfloor> then \<lfloor>x\<rfloor> else \<lfloor>x\<rfloor> + 1)"

fun normalise :: "nat \<Rightarrow> real \<Rightarrow> real \<Rightarrow> real \<times> real" where
  "normalise fuel x ulp =
     (if fuel = 0 then (x, ulp)
      else if x < 2 ^ 52 then normalise (fuel - 1) (2 * x) (ulp / 2)
      else if 2 ^ 53 \<le> x then normalise (fuel - 1) (x / 2) (2 * ulp)
      else (x, ulp))"

definition round_to_double :: "real \<Rightarrow> real" where
  "round_to_double x =
     (if x = 0 then 0
      else (case normalise 2200 \<bar>x\<bar> 1 of
              (significand, ulp) \<Rightarrow> sgn x * of_int (round_half_even significand) * ulp))"

subsection \<open>Values of the quantity system and of the array library\<close>

datatype py_error = TypeError | ValueError | IndexError | AttributeError

text \<open>
  Modelled from the spec: \<^verbatim>\<open>PyOptik.units\<close> (the names \<^verbatim>\<open>Quantity\<close> and
  \<^verbatim>\<open>meter\<close> the file imports) is not part of the excerpt. The spec describes a
  quantity as a numeric value, scalar or array, paired with a physical unit of length, with
  a \<^verbatim>\<open>.magnitude\<close> and a \<^verbatim>\<open>.units\<close> accessor. A unit is one of a few
  length units. The factor of a unit to the root unit, the meter, is the double that the
  decimal literal of its prefix denotes (\<^verbatim>\<open>1e-3\<close>, \<^verbatim>\<open>1e-6\<close>,
  \<^verbatim>\<open>1e-9\<close>).
\<close>

datatype length_unit = meter | millimeter | micrometer | nanometer

fun exact_factor :: "length_unit \<Rightarrow> real" where
  "exact_factor meter = 1"
| "exact_factor millimeter = 1 / 10 ^ 3"
| "exact_factor micrometer = 1 / 10 ^ 6"
| "exact_factor nanometer = 1 / 10 ^ 9"

definition root_factor :: "length_unit \<Rightarrow> real" where
  "root_factor u = round_to_double (exact_factor u)"

text \<open>A number or a one-dimensional array of numbers (also used for comparison masks).\<close>

datatype 'a nd = Scalar 'a | Array "'a list"

datatype 'm quantity = Quantity (magnitude: 'm) (units: length_unit)

text \<open>
  Comparison of two scalar quantities, as the quantity system does it: magnitudes are
  compared directly when the units are the same, and after conversion of both to the root
  unit otherwise. The conversion is one floating-point product of the magnitude and the
  factor of the unit.
\<close>

definition to_root_units :: "real quantity \<Rightarrow> real" where
  "to_root_units q = round_to_double (magnitude q * root_factor (units q))"

definition compare :: "(real \<Rightarrow> real \<Rightarrow> bool) \<Rightarrow> real quantity \<Rightarrow> real quantity \<Rightarrow> bool" where
  "compare op a b =
     (if units a = units b then op (magnitude a) (magnitude b)
      else op (to_root_units a) (to_root_units b))"

text \<open>\<^verbatim>\<open>wavelength_range < min_value\<close> and \<^verbatim>\<open>wavelength_range > max_value\<close>:
  elementwise over the magnitude of the left operand, against a scalar quantity.\<close>

definition less_quantity :: "real nd quantity \<Rightarrow> real quantity \<Rightarrow> bool nd" where
  "less_quantity r b = map_nd (\<lambda>x. compare (<) (Quantity x (units r)) b) (magnitude r)"

definition greater_quantity :: "real nd quantity \<Rightarrow> real quantity \<Rightarrow> bool nd" where
  "greater_quantity r b = map_nd (\<lambda>x. compare (>) (Quantity x (units r)) b) (magnitude r)"

text \<open>The operator \<^verbatim>\<open>|\<close> on two masks. Both masks of \<^verbatim>\<open>_check_wavelength\<close> come
  from the same array, so their shapes agree; a scalar is broadcast against an array.\<close>

fun logical_or :: "bool nd \<Rightarrow> bool nd \<Rightarrow> bool nd" where
  "logical_or (Scalar a) (Scalar b) = Scalar (a \<or> b)"
| "logical_or (Scalar a) (Array bs) = Array (map (\<lambda>b. a \<or> b) bs)"
| "logical_or (Array as) (Scalar b) = Array (map (\<lambda>a. a \<or> b) as)"
| "logical_or (Array as) (Array bs) = Array (map (\<lambda>(a, b). a \<or> b) (zip as bs))"

text \<open>\<^verbatim>\<open>numpy.any\<close>: false on an empty array.\<close>

fun numpy_any :: "bool nd \<Rightarrow> bool" where
  "numpy_any (Scalar b) = b"
| "numpy_any (Array bs) = foldr (\<or>) bs False"

text \<open>\<^verbatim>\<open>.min()\<close> and \<^verbatim>\<open>.max()\<close> of a quantity: the reduction of an empty array
  raises \<^verbatim>\<open>ValueError\<close>.\<close>

fun min_quantity :: "real nd quantity \<Rightarrow> py_error + real quantity" where
  "min_quantity (Quantity (Scalar x) u) = Inr (Quantity x u)"
| "min_quantity (Quantity (Array []) u) = Inl ValueError"
| "min_quantity (Quantity (Array (x # xs)) u) = Inr (Quantity (fold min xs x) u)"

fun max_quantity :: "real nd quantity \<Rightarrow> py_error + real quantity" where
  "max_quantity (Quantity (Scalar x) u) = Inr (Quantity x u)"
| "max_quantity (Quantity (Array []) u) = Inl ValueError"
| "max_quantity (Quantity (Array (x # xs)) u) = Inr (Quantity (fold max xs x) u)"

text \<open>Indexing a quantity: a scalar magnitude does not support indexing
  (\<^verbatim>\<open>TypeError\<close>), an index past the end of an array raises \<^verbatim>\<open>IndexError\<close>.\<close>

fun getitem_quantity :: "real nd quantity \<Rightarrow> nat \<Rightarrow> py_error + real quantity" where
  "getitem_quantity (Quantity (Scalar x) u) i = Inl TypeError"
| "getitem_quantity (Quantity (Array xs) u) i =
     (if i < length xs then Inr (Quantity (xs ! i) u) else Inl IndexError)"

text \<open>
  \<^verbatim>\<open>numpy.linspace(start, stop, num)\<close> in exact arithmetic: \<open>num\<close> samples
  \<open>start + i * step\<close> with \<open>step = (stop - start) / (num - 1)\<close>, the last one set to
  \<open>stop\<close>.
\<close>

definition linspace :: "real \<Rightarrow> real \<Rightarrow> nat \<Rightarrow> real list" where
  "linspace start stop num =
     map (\<lambda>i. if 1 < num \<and> i = num - 1 then stop
              else start + real i * ((stop - start) / real (num - 1)))
         [0..<num]"

subsection \<open>The material\<close>

text \<open>
  The attributes the class reads. \<^verbatim>\<open>wavelength_bound\<close> is \<^verbatim>\<open>None\<close>, a
  plain tuple of two scalar quantities (the shape the spec's data model describes), or a
  single quantity whose magnitude holds the bounds.
\<close>

datatype bound = BoundTuple "real quantity" "real quantity" | BoundQuantity "real nd quantity"

record BaseMaterial =
  filename :: string
  wavelength_bound :: "bound option"

subsection \<open>String representations\<close>

definition BaseMaterial_str :: "BaseMaterial \<Rightarrow> string" where
  "BaseMaterial_str self = ''Material: '' @ filename self"

definition BaseMaterial_repr :: "BaseMaterial \<Rightarrow> string" where
  "BaseMaterial_repr self = BaseMaterial_str self"

subsection \<open>The wavelength check\<close>

text \<open>
  The state a call can touch: the material, the argument, and the calls of
  \<^verbatim>\<open>warnings.warn\<close> made so far, each recorded by its message. What the
  interpreter shows of them is decided by its warning filter, modelled further below.
\<close>

record frame =
  material :: BaseMaterial
  wavelength_range :: "real nd quantity"
  warnings :: "string list"

text \<open>\<^verbatim>\<open>min_value, max_value = self.wavelength_bound\<close>: a tuple unpacks into its
  two elements; a quantity is iterated, which needs an array magnitude
  (\<^verbatim>\<open>TypeError\<close> otherwise) of exactly two elements (\<^verbatim>\<open>ValueError\<close> otherwise).\<close>

fun unpack :: "bound \<Rightarrow> py_error + (real quantity \<times> real quantity)" where
  "unpack (BoundTuple lo hi) = Inr (lo, hi)"
| "unpack (BoundQuantity (Quantity (Scalar x) u)) = Inl TypeError"
| "unpack (BoundQuantity (Quantity (Array xs) u)) =
     (if length xs = 2 then Inr (Quantity (xs ! 0) u, Quantity (xs ! 1) u)
      else Inl ValueError)"

text \<open>The micro sign of the message, U+00B5, as its two UTF-8 bytes.\<close>

definition micro_sign :: string where
  "micro_sign = [CHR 0xC2, CHR 0xB5]"

text \<open>
  \<open>to_compact\<close> stands for \<^verbatim>\<open>.to_compact()\<close> followed by the formatting of the
  f-string: the rendering of a scalar quantity by the quantity system.
\<close>

definition BaseMaterial_check_wavelength ::
  "(real quantity \<Rightarrow> string) \<Rightarrow> frame \<Rightarrow> py_error + frame" where
  "BaseMaterial_check_wavelength to_compact s =
     (case wavelength_bound (material s) of
        None \<Rightarrow> Inr s
      | Some b \<Rightarrow>
          (case unpack b of
             Inl e \<Rightarrow> Inl e
           | Inr (min_value, max_value) \<Rightarrow>
               if numpy_any (logical_or (less_quantity (wavelength_range s) min_value)
                                        (greater_quantity (wavelength_range s) max_value))
               then
                 (case min_quantity (wavelength_range s) of
                    Inl e \<Rightarrow> Inl e
                  | Inr range_min \<Rightarrow>
                      (case max_quantity (wavelength_range s) of
                         Inl e \<Rightarrow> Inl e
                       | Inr range_max \<Rightarrow>
                           Inr (s\<lparr>warnings := warnings s @
                             [''Wavelength range goes from '' @ to_compact range_min
                              @ '' to '' @ to_compact range_max
                              @ '' which is outside the allowable range of ''
                              @ to_compact min_value @ '' to '' @ to_compact max_value
                              @ '' '' @ micro_sign @ ''m. ''
                              @ ''[Material: '' @ filename (material s) @ '']'']\<rparr>)))
               else Inr s))"

subsection \<open>The decorator\<close>

text \<open>The wavelength argument of a wrapped operation: omitted, a bare number or array,
  or a quantity.\<close>

datatype wavelength_arg = PyNone | Bare "real nd" | Qty "real nd quantity"

text \<open>\<^verbatim>\<open>self.wavelength_bound[i]\<close>: \<^verbatim>\<open>None\<close> is not subscriptable.\<close>

fun bound_getitem :: "bound option \<Rightarrow> nat \<Rightarrow> py_error + real quantity" where
  "bound_getitem None i = Inl TypeError"
| "bound_getitem (Some (BoundTuple lo hi)) i =
     (if i = 0 then Inr lo else if i = 1 then Inr hi else Inl IndexError)"
| "bound_getitem (Some (BoundQuantity q)) i = getitem_quantity q i"

text \<open>\<^verbatim>\<open>self.wavelength_bound.units\<close>: neither \<^verbatim>\<open>None\<close> nor a tuple has the
  attribute.\<close>

fun bound_units :: "bound option \<Rightarrow> py_error + length_unit" where
  "bound_units None = Inl AttributeError"
| "bound_units (Some (BoundTuple lo hi)) = Inl AttributeError"
| "bound_units (Some (BoundQuantity q)) = Inr (units q)"

text \<open>The right-hand side of line 71, evaluated left to right.\<close>

definition default_sweep :: "BaseMaterial \<Rightarrow> py_error + real nd quantity" where
  "default_sweep self =
     (case bound_getitem (wavelength_bound self) 0 of
        Inl e \<Rightarrow> Inl e
      | Inr b0 \<Rightarrow>
          (case bound_getitem (wavelength_bound self) 1 of
             Inl e \<Rightarrow> Inl e
           | Inr b1 \<Rightarrow>
               (case bound_units (wavelength_bound self) of
                  Inl e \<Rightarrow> Inl e
                | Inr u \<Rightarrow>
                    Inr (Quantity (Array (linspace (magnitude b0) (magnitude b1) 100)) u))))"

text \<open>\<^verbatim>\<open>if not isinstance(wavelength, Quantity): wavelength = wavelength * meter\<close>.
  The product of \<^verbatim>\<open>None\<close> and a unit is a \<^verbatim>\<open>TypeError\<close>; the first
  statement of the wrapper has replaced \<^verbatim>\<open>None\<close> before this point.\<close>

fun attach_meter :: "wavelength_arg \<Rightarrow> py_error + real nd quantity" where
  "attach_meter (Qty q) = Inr q"
| "attach_meter (Bare x) = Inr (Quantity x meter)"
| "attach_meter PyNone = Inl TypeError"

text \<open>
  The wrapped operation \<open>func\<close> takes the material, the wavelength, the remaining
  positional arguments and the keyword arguments; it may raise. The wrapper returns what
  \<open>func\<close> returns.
\<close>

definition wrapper ::
  "(BaseMaterial \<Rightarrow> real nd quantity \<Rightarrow> 'a \<Rightarrow> 'k \<Rightarrow> py_error + 'r) \<Rightarrow>
   BaseMaterial \<Rightarrow> wavelength_arg \<Rightarrow> 'a \<Rightarrow> 'k \<Rightarrow> py_error + 'r" where
  "wrapper func self wavelength args kwargs =
     (case (if wavelength = PyNone then map_sum id Qty (default_sweep self)
            else Inr wavelength) of
        Inl e \<Rightarrow> Inl e
      | Inr wavelength1 \<Rightarrow>
          (case attach_meter wavelength1 of
             Inl e \<Rightarrow> Inl e
           | Inr wavelength2 \<Rightarrow> func self wavelength2 args kwargs))"

definition ensure_units ::
  "(BaseMaterial \<Rightarrow> real nd quantity \<Rightarrow> 'a \<Rightarrow> 'k \<Rightarrow> py_error + 'r) \<Rightarrow>
   BaseMaterial \<Rightarrow> wavelength_arg \<Rightarrow> 'a \<Rightarrow> 'k \<Rightarrow> py_error + 'r" where
  "ensure_units func = wrapper func"

subsection \<open>The conditions of the specification\<close>

text \<open>The length a quantity denotes, in meters, without rounding.\<close>

definition exact_length :: "real quantity \<Rightarrow> real" where
  "exact_length q = magnitude q * exact_factor (units q)"

text \<open>
  ``Strictly less'' between two quantities as the code can decide it: by the magnitudes
  when both are written in the same unit, and by the double-precision values in meters
  when they are not.
\<close>

definition strictly_less :: "real quantity \<Rightarrow> real quantity \<Rightarrow> bool" where
  "strictly_less a b =
     (if units a = units b then magnitude a < magnitude b
      else to_root_units a < to_root_units b)"

text \<open>
  The condition for an advisory: at least one element of the supplied range is strictly
  less than the minimum or strictly greater than the maximum. It is compared below with
  what \<open>BaseMaterial_check_wavelength\<close> computes through the masks.
\<close>

definition some_element_outside ::
  "real nd quantity \<Rightarrow> real quantity \<Rightarrow> real quantity \<Rightarrow> bool" where
  "some_element_outside r lo hi =
     (\<exists>x \<in> set_nd (magnitude r).
        strictly_less (Quantity x (units r)) lo \<or> strictly_less hi (Quantity x (units r)))"

text \<open>
  The spec's invariant of the data model: \<^verbatim>\<open>wavelength_bound\<close>, when present, holds
  exactly two values, the minimum and the maximum.
\<close>

fun holds_two_values :: "bound \<Rightarrow> bool" where
  "holds_two_values (BoundTuple lo hi) = True"
| "holds_two_values (BoundQuantity (Quantity (Scalar x) u)) = False"
| "holds_two_values (BoundQuantity (Quantity (Array xs) u)) = (length xs = 2)"

definition bound_invariant :: "BaseMaterial \<Rightarrow> bool" where
  "bound_invariant m =
     (case wavelength_bound m of None \<Rightarrow> True | Some b \<Rightarrow> holds_two_values b)"

subsection \<open>The warning filter of the interpreter\<close>

text \<open>
  \<^verbatim>\<open>warnings.warn\<close> under the default configuration of the interpreter, where a
  \<^verbatim>\<open>UserWarning\<close> gets the action \<^verbatim>\<open>default\<close>: a warning is shown the
  first time its text is issued from a line and entered in the registry of the module; a
  later warning with the same text from the same line is dropped. Every call here comes
  from the one \<^verbatim>\<open>warnings.warn\<close> of \<^verbatim>\<open>_check_wavelength\<close>, so the text
  is the key. The state is the registry and the warnings shown so far.
\<close>

fun warn_default :: "string \<Rightarrow> string list \<times> string list \<Rightarrow> string list \<times> string list" where
  "warn_default text (registry, shown) =
     (if text \<in> set registry then (registry, shown)
      else (text # registry, shown @ [text]))"

text \<open>What a fresh interpreter shows for a sequence of calls.\<close>

definition shown_by_default :: "string list \<Rightarrow> string list" where
  "shown_by_default calls = snd (fold warn_default calls ([], []))"

subsection \<open>Sample collaborators for the concrete instances\<close>

text \<open>A wrapped operation that returns the wavelength it receives, a renderer that
  prints the unit of a quantity, a material supported from 0.5 to 2 micrometers, and a
  renderer that prints a few magnitudes as well.\<close>

definition echo_wavelength ::
  "BaseMaterial \<Rightarrow> real nd quantity \<Rightarrow> unit \<Rightarrow> unit \<Rightarrow> py_error + real nd quantity" where
  "echo_wavelength self wavelength args kwargs = Inr wavelength"

fun unit_name :: "real quantity \<Rightarrow> string" where
  "unit_name (Quantity x meter) = ''m''"
| "unit_name (Quantity x millimeter) = ''mm''"
| "unit_name (Quantity x micrometer) = ''um''"
| "unit_name (Quantity x nanometer) = ''nm''"

definition bk7 :: BaseMaterial where
  "bk7 = \<lparr>filename = ''BK7'',
      wavelength_bound = Some (BoundQuantity (Quantity (Array [1 / 2, 2]) micrometer))\<rparr>"

fun unit_symbol :: "length_unit \<Rightarrow> string" where
  "unit_symbol meter = ''m''"
| "unit_symbol millimeter = ''mm''"
| "unit_symbol micrometer = ''um''"
| "unit_symbol nanometer = ''nm''"

definition sample_digits :: "real \<Rightarrow> string" where
  "sample_digits x =
     (if x = 1 / 2 then ''0.5'' else if x = 1 then ''1'' else if x = 2 then ''2''
      else if x = 3 then ''3'' else if x = 400 then ''400'' else if x = 2000 then ''2000''
      else if x = 3000 then ''3000'' else ''?'')"

definition sample_compact :: "real quantity \<Rightarrow> string" where
  "sample_compact q = sample_digits (magnitude q) @ '' '' @ unit_symbol (units q)"

section \<open>Facts about the collaborators\<close>

subsection \<open>Comparisons, masks and reductions\<close>

declare normalise.simps [simp del]

lemma root_factor_values:
  "root_factor meter = 1"
  "root_factor millimeter = 1152921504606847 / 2 ^ 60"
  "root_factor micrometer = 4722366482869645 / 2 ^ 72"
  "root_factor nanometer = 4835703278458517 / 2 ^ 82"
  by (simp_all add: root_factor_def round_to_double_def normalise.simps round_half_even_def)

lemma compare_less: "compare (<) a b \<longleftrightarrow> strictly_less a b"
  by (simp add: compare_def strictly_less_def)

lemma compare_greater: "compare (>) a b \<longleftrightarrow> strictly_less b a"
  by (auto simp: compare_def strictly_less_def)

lemma foldr_or: "foldr (\<or>) bs False \<longleftrightarrow> (\<exists>b \<in> set bs. b)"
  by (induction bs) auto

lemma any_masks:
  "numpy_any (logical_or (map_nd p m) (map_nd q m)) \<longleftrightarrow> (\<exists>x \<in> set_nd m. p x \<or> q x)"
proof (cases m)
  case (Scalar x)
  then show ?thesis by simp
next
  case (Array xs)
  have "zip (map p xs) (map q xs) = map (\<lambda>x. (p x, q x)) xs"
    by (induction xs) simp_all
  then show ?thesis using Array by (auto simp: foldr_or)
qed

lemma any_outside:
  "numpy_any (logical_or (less_quantity r lo) (greater_quantity r hi)) \<longleftrightarrow>
   some_element_outside r lo hi"
  by (simp add: less_quantity_def greater_quantity_def any_masks some_element_outside_def
      compare_less compare_greater)

lemma fold_min_Min: "fold min xs (x::real) = Min (insert x (set xs))"
  using Min.set_eq_fold [of x xs] by simp

lemma fold_max_Max: "fold max xs (x::real) = Max (insert x (set xs))"
  using Max.set_eq_fold [of x xs] by simp

lemma min_quantity_Min:
  "set_nd (magnitude r) \<noteq> {} \<Longrightarrow>
   min_quantity r = Inr (Quantity (Min (set_nd (magnitude r))) (units r))"
  by (induction r rule: min_quantity.induct) (simp_all add: fold_min_Min)

lemma max_quantity_Max:
  "set_nd (magnitude r) \<noteq> {} \<Longrightarrow>
   max_quantity r = Inr (Quantity (Max (set_nd (magnitude r))) (units r))"
  by (induction r rule: max_quantity.induct) (simp_all add: fold_max_Max)

subsection \<open>The three outcomes of the wavelength check\<close>

lemma outside_nonempty: "some_element_outside r lo hi \<Longrightarrow> set_nd (magnitude r) \<noteq> {}"
  by (auto simp: some_element_outside_def)

lemma check_unset:
  "wavelength_bound (material s) = None \<Longrightarrow> BaseMaterial_check_wavelength tc s = Inr s"
  by (simp add: BaseMaterial_check_wavelength_def)

lemma check_inside:
  "wavelength_bound (material s) = Some b \<Longrightarrow> unpack b = Inr (lo, hi) \<Longrightarrow>
   \<not> some_element_outside (wavelength_range s) lo hi \<Longrightarrow>
   BaseMaterial_check_wavelength tc s = Inr s"
  by (simp add: BaseMaterial_check_wavelength_def any_outside)

lemma check_outside:
  "wavelength_bound (material s) = Some b \<Longrightarrow> unpack b = Inr (lo, hi) \<Longrightarrow>
   some_element_outside (wavelength_range s) lo hi \<Longrightarrow>
   BaseMaterial_check_wavelength tc s =
     Inr (s\<lparr>warnings := warnings s @
       [''Wavelength range goes from ''
        @ tc (Quantity (Min (set_nd (magnitude (wavelength_range s)))) (units (wavelength_range s)))
        @ '' to ''
        @ tc (Quantity (Max (set_nd (magnitude (wavelength_range s)))) (units (wavelength_range s)))
        @ '' which is outside the allowable range of '' @ tc lo @ '' to '' @ tc hi
        @ '' '' @ micro_sign @ ''m. [Material: '' @ filename (material s) @ '']'']\<rparr>)"
  by (simp add: BaseMaterial_check_wavelength_def any_outside min_quantity_Min max_quantity_Max
      outside_nonempty)


lemma unpack_two_values: "holds_two_values b \<Longrightarrow> \<exists>lo hi. unpack b = Inr (lo, hi)"
  by (induction b rule: holds_two_values.induct) simp_all

lemma check_unpack_error:
  "wavelength_bound (material s) = Some b \<Longrightarrow> unpack b = Inl e \<Longrightarrow>
   BaseMaterial_check_wavelength tc s = Inl e"
  by (simp add: BaseMaterial_check_wavelength_def)

lemma unpack_shape:
  assumes "unpack b = Inr (lo, hi)"
  shows "b = BoundTuple lo hi \<or>
    (\<exists>x y u. b = BoundQuantity (Quantity (Array [x, y]) u) \<and> lo = Quantity x u \<and> hi = Quantity y u)"
proof (cases b)
  case (BoundTuple a c)
  with assms show ?thesis by simp
next
  case (BoundQuantity q)
  obtain v u where q: "q = Quantity v u" by (cases q)
  show ?thesis
  proof (cases v)
    case (Scalar x)
    with assms BoundQuantity q show ?thesis by simp
  next
    case (Array xs)
    with assms BoundQuantity q have l: "length xs = 2"
      and lo: "lo = Quantity (xs ! 0) u" and hi: "hi = Quantity (xs ! 1) u"
      by (simp_all split: if_splits)
    from l obtain x y where "xs = [x, y]"
      by (cases xs; cases "tl xs") auto
    with BoundQuantity q Array lo hi show ?thesis by simp
  qed
qed

lemma invariant_shape:
  assumes "bound_invariant m" and "wavelength_bound m = Some b"
  shows "(\<exists>lo hi. b = BoundTuple lo hi) \<or> (\<exists>x y u. b = BoundQuantity (Quantity (Array [x, y]) u))"
proof -
  from assms have "holds_two_values b" by (simp add: bound_invariant_def)
  then obtain lo hi where "unpack b = Inr (lo, hi)"
    using unpack_two_values by blast
  from unpack_shape [OF this] show ?thesis by blast
qed

subsection \<open>The default filter\<close>

lemma warn_default_twice: "warn_default t (warn_default t st) = warn_default t st"
  by (cases st) simp

lemma registry_fold: "set (fst (fold warn_default calls st)) = set calls \<union> set (fst st)"
proof (induction calls arbitrary: st)
  case Nil
  show ?case by simp
next
  case (Cons t calls)
  obtain registry shown where "st = (registry, shown)" by (cases st)
  with Cons show ?case by auto
qed

lemma shown_repeat: "shown_by_default (calls @ [t, t]) = shown_by_default (calls @ [t])"
  by (simp add: shown_by_default_def warn_default_twice)

lemma shown_first:
  assumes "t \<notin> set calls"
  shows "shown_by_default (calls @ [t]) = shown_by_default calls @ [t]"
proof -
  obtain registry shown where st: "fold warn_default calls ([], []) = (registry, shown)"
    by (cases "fold warn_default calls ([], [])")
  from registry_fold [of calls "([], [])"] st have "set registry = set calls" by simp
  with assms st show ?thesis by (simp add: shown_by_default_def)
qed

subsection \<open>The evenly spaced samples\<close>

lemma length_linspace: "length (linspace a b n) = n"
  by (simp add: linspace_def)

lemma linspace_nth:
  "i < n \<Longrightarrow> linspace a b n ! i = a + real i * ((b - a) / real (n - 1))"
proof -
  assume i: "i < n"
  show ?thesis
  proof (cases "1 < n \<and> i = n - 1")
    case True
    then have "real i * ((b - a) / real (n - 1)) = b - a" by simp
    with i True show ?thesis by (simp add: linspace_def)
  next
    case False
    with i show ?thesis by (auto simp: linspace_def)
  qed
qed

lemma linspace_last: "1 < n \<Longrightarrow> linspace a b n ! (n - 1) = b"
  by (simp add: linspace_def)

lemma linspace_step:
  assumes "Suc i < n"
  shows "linspace a b n ! Suc i - linspace a b n ! i = (b - a) / real (n - 1)"
proof -
  define step where "step = (b - a) / real (n - 1)"
  from assms have "i < n" by simp
  with assms have "linspace a b n ! Suc i = a + real (Suc i) * step"
    and "linspace a b n ! i = a + real i * step"
    by (simp_all only: linspace_nth step_def)
  then have "linspace a b n ! Suc i - linspace a b n ! i = step"
    by (simp add: algebra_simps)
  then show ?thesis by (simp only: step_def)
qed

subsection \<open>The default sweep by the shape of the bound\<close>

lemma default_sweep_None: "wavelength_bound m = None \<Longrightarrow> default_sweep m = Inl TypeError"
  by (simp add: default_sweep_def)

lemma default_sweep_tuple:
  "wavelength_bound m = Some (BoundTuple lo hi) \<Longrightarrow> default_sweep m = Inl AttributeError"
  by (simp add: default_sweep_def)

lemma default_sweep_scalar:
  "wavelength_bound m = Some (BoundQuantity (Quantity (Scalar x) u)) \<Longrightarrow>
   default_sweep m = Inl TypeError"
  by (simp add: default_sweep_def)

lemma default_sweep_short:
  "wavelength_bound m = Some (BoundQuantity (Quantity (Array bs) u)) \<Longrightarrow> length bs < 2 \<Longrightarrow>
   default_sweep m = Inl IndexError"
  by (simp add: default_sweep_def)

lemma default_sweep_array:
  assumes "wavelength_bound m = Some (BoundQuantity (Quantity (Array bs) u))"
    and "2 \<le> length bs"
  shows "default_sweep m = Inr (Quantity (Array (linspace (bs ! 0) (bs ! 1) 100)) u)"
proof -
  from assms(2) have "0 < length bs" and "1 < length bs" by auto
  with assms(1) show ?thesis by (simp add: default_sweep_def)
qed

lemma wrapper_omitted_error:
  "default_sweep m = Inl e \<Longrightarrow> ensure_units func m PyNone args kwargs = Inl e"
  by (simp add: ensure_units_def wrapper_def)

lemma wrapper_omitted_sweep:
  "default_sweep m = Inr w \<Longrightarrow> ensure_units func m PyNone args kwargs = func m w args kwargs"
  by (simp add: ensure_units_def wrapper_def)

lemma default_sweep_succeeds_iff:
  "(\<exists>w. default_sweep m = Inr w) \<longleftrightarrow>
   (\<exists>bs u. wavelength_bound m = Some (BoundQuantity (Quantity (Array bs) u)) \<and> 2 \<le> length bs)"
proof (cases "wavelength_bound m")
  case None
  then show ?thesis by (simp add: default_sweep_None)
next
  case (Some b)
  show ?thesis
  proof (cases b)
    case (BoundTuple lo hi)
    with Some show ?thesis by (simp add: default_sweep_tuple)
  next
    case (BoundQuantity q)
    obtain v u where q: "q = Quantity v u" by (cases q)
    show ?thesis
    proof (cases v)
      case (Scalar x)
      with Some BoundQuantity q show ?thesis by (simp add: default_sweep_scalar)
    next
      case (Array bs)
      show ?thesis
      proof (cases "2 \<le> length bs")
        case True
        with Some BoundQuantity q Array show ?thesis by (simp add: default_sweep_array)
      next
        case False
        then have "length bs < 2" by simp
        with Some BoundQuantity q Array show ?thesis by (simp add: default_sweep_short)
      qed
    qed
  qed
qed

lemma delegates_iff:
  "(\<exists>w. \<forall>args kwargs (func :: BaseMaterial \<Rightarrow> real nd quantity \<Rightarrow> 'a \<Rightarrow> 'k \<Rightarrow> py_error + 'r).
        ensure_units func m PyNone args kwargs = func m w args kwargs)
   \<longleftrightarrow> (\<exists>w. default_sweep m = Inr w)"
proof
  assume "\<exists>w. \<forall>args kwargs (func :: BaseMaterial \<Rightarrow> real nd quantity \<Rightarrow> 'a \<Rightarrow> 'k \<Rightarrow> py_error + 'r).
        ensure_units func m PyNone args kwargs = func m w args kwargs"
  then obtain w where w: "\<And>args kwargs (func :: BaseMaterial \<Rightarrow> real nd quantity \<Rightarrow> 'a \<Rightarrow> 'k \<Rightarrow> py_error + 'r).
        ensure_units func m PyNone args kwargs = func m w args kwargs"
    by blast
  show "\<exists>w. default_sweep m = Inr w"
  proof (cases "default_sweep m")
    case (Inl e)
    from w [of "\<lambda>_ _ _ _. Inr undefined" undefined undefined]
      wrapper_omitted_error [OF Inl, of "\<lambda>_ _ _ _. Inr undefined :: py_error + 'r" "undefined :: 'a" "undefined :: 'k"]
    show ?thesis by simp
  next
    case (Inr w')
    then show ?thesis by blast
  qed
next
  assume "\<exists>w. default_sweep m = Inr w"
  then obtain w where "default_sweep m = Inr w" ..
  then show "\<exists>w. \<forall>args kwargs (func :: BaseMaterial \<Rightarrow> real nd quantity \<Rightarrow> 'a \<Rightarrow> 'k \<Rightarrow> py_error + 'r).
        ensure_units func m PyNone args kwargs = func m w args kwargs"
    by (auto simp: wrapper_omitted_sweep)
qed


section \<open>Properties\<close>

subsection \<open>String representations\<close>

text \<open>
  C4. For every material, the informal and the formal representation are the same string,
  \<^verbatim>\<open>Material: \<close> followed by the material's filename. Both are functions of the
  material alone and return only the string.
\<close>

theorem str_repr_identical:
  "BaseMaterial_repr m = BaseMaterial_str m \<and>
   BaseMaterial_str m = ''Material: '' @ filename m"
  by (simp add: BaseMaterial_repr_def BaseMaterial_str_def)

subsection \<open>The wavelength check\<close>

text \<open>
  C1 (amended). For a material that satisfies the invariant of the data model and any range,
  the check returns normally and issues at most one advisory per call, however many
  elements are outside. With the bound unset it issues none. With the bound set, as a
  tuple or as a two-element quantity, it issues one exactly when at least one element of
  the range is strictly less than the declared minimum or strictly greater than the
  declared maximum, where two quantities in the same unit are compared by their magnitudes
  and two quantities in different units by their double-precision values in meters. So
  there is none when no element compares outside, and none for an empty range.
\<close>

theorem check_wavelength_advisory_iff:
  assumes "bound_invariant (material s)"
  shows "\<exists>adv. BaseMaterial_check_wavelength to_compact s = Inr (s\<lparr>warnings := warnings s @ adv\<rparr>)
           \<and> length adv \<le> 1
           \<and> (wavelength_bound (material s) = None \<longrightarrow> adv = [])
           \<and> (\<forall>min_value max_value.
                 wavelength_bound (material s) = Some (BoundTuple min_value max_value) \<longrightarrow>
                 (adv \<noteq> [] \<longleftrightarrow>
                    some_element_outside (wavelength_range s) min_value max_value))
           \<and> (\<forall>lo hi u.
                 wavelength_bound (material s)
                   = Some (BoundQuantity (Quantity (Array [lo, hi]) u)) \<longrightarrow>
                 (adv \<noteq> [] \<longleftrightarrow>
                    some_element_outside (wavelength_range s) (Quantity lo u) (Quantity hi u)))"
proof (cases "wavelength_bound (material s)")
  case None
  then have "BaseMaterial_check_wavelength to_compact s = Inr (s\<lparr>warnings := warnings s @ []\<rparr>)"
    by (simp add: check_unset)
  with None show ?thesis by (intro exI [of _ "[]"]) simp
next
  case (Some b)
  have decided: "\<exists>adv. BaseMaterial_check_wavelength to_compact s
                         = Inr (s\<lparr>warnings := warnings s @ adv\<rparr>)
      \<and> length adv \<le> 1 \<and> (adv \<noteq> [] \<longleftrightarrow> some_element_outside (wavelength_range s) mn mx)"
    if u: "unpack b = Inr (mn, mx)" for mn mx
  proof (cases "some_element_outside (wavelength_range s) mn mx")
    case True
    from check_outside [OF Some u True, of to_compact]
    obtain msg where "BaseMaterial_check_wavelength to_compact s
        = Inr (s\<lparr>warnings := warnings s @ [msg]\<rparr>)"
      by blast
    with True show ?thesis by (intro exI [of _ "[msg]"]) simp
  next
    case False
    from check_inside [OF Some u False, of to_compact]
    have "BaseMaterial_check_wavelength to_compact s = Inr (s\<lparr>warnings := warnings s @ []\<rparr>)"
      by simp
    with False show ?thesis by (intro exI [of _ "[]"]) simp
  qed
  from invariant_shape [OF assms Some]
  consider (tuple) mn mx where "b = BoundTuple mn mx"
    | (quantity) x y v where "b = BoundQuantity (Quantity (Array [x, y]) v)"
    by blast
  then show ?thesis
  proof cases
    case tuple
    then have "unpack b = Inr (mn, mx)" by simp
    from decided [OF this] Some tuple show ?thesis by auto
  next
    case quantity
    then have "unpack b = Inr (Quantity x v, Quantity y v)" by simp
    from decided [OF this] Some quantity show ?thesis by auto
  qed
qed

theorem check_wavelength_advisory_iff_witness:
  "bound_invariant bk7
   \<and> wavelength_bound bk7 = Some (BoundQuantity (Quantity (Array [1 / 2, 2]) micrometer))
   \<and> some_element_outside (Quantity (Array [400, 3000]) nanometer)
        (Quantity (1 / 2) micrometer) (Quantity 2 micrometer)
   \<and> (\<exists>adv. BaseMaterial_check_wavelength sample_compact
          \<lparr>material = bk7, wavelength_range = Quantity (Array [400, 3000]) nanometer,
           warnings = []\<rparr>
        = Inr \<lparr>material = bk7, wavelength_range = Quantity (Array [400, 3000]) nanometer,
           warnings = adv\<rparr>
        \<and> length adv = 1)"
proof -
  let ?s = "\<lparr>material = bk7, wavelength_range = Quantity (Array [400, 3000]) nanometer,
      warnings = []\<rparr>"
  have h: "bound_invariant (material ?s)" by (simp add: bound_invariant_def bk7_def)
  have w: "wavelength_bound bk7 = Some (BoundQuantity (Quantity (Array [1 / 2, 2]) micrometer))"
    by (simp add: bk7_def)
  have out: "some_element_outside (Quantity (Array [400, 3000]) nanometer)
      (Quantity (1 / 2) micrometer) (Quantity 2 micrometer)"
    by (simp add: some_element_outside_def strictly_less_def to_root_units_def
        root_factor_values round_to_double_def normalise.simps round_half_even_def)
  from check_wavelength_advisory_iff [OF h, of sample_compact]
  obtain adv where a: "BaseMaterial_check_wavelength sample_compact ?s
        = Inr (?s\<lparr>warnings := warnings ?s @ adv\<rparr>)"
    and b: "length adv \<le> 1"
    and c: "\<forall>lo hi u.
                 wavelength_bound (material ?s)
                   = Some (BoundQuantity (Quantity (Array [lo, hi]) u)) \<longrightarrow>
                 (adv \<noteq> [] \<longleftrightarrow>
                    some_element_outside (wavelength_range ?s) (Quantity lo u) (Quantity hi u))"
    by blast
  have wm: "wavelength_bound (material ?s)
      = Some (BoundQuantity (Quantity (Array [1 / 2, 2]) micrometer))"
    using w by simp
  from c [rule_format, OF wm] out have "adv \<noteq> []" by simp
  with b have "length adv = 1" by (cases adv) simp_all
  with a h w out show ?thesis by simp
qed

theorem check_wavelength_rounding_counterexample:
  "exact_length (Quantity (1 / 2) micrometer) \<le> exact_length (Quantity 2000 nanometer)
   \<and> exact_length (Quantity 2000 nanometer) \<le> exact_length (Quantity 2 micrometer)
   \<and> BaseMaterial_check_wavelength sample_compact
        \<lparr>material = bk7, wavelength_range = Quantity (Scalar 2000) nanometer, warnings = []\<rparr>
      = Inr \<lparr>material = bk7, wavelength_range = Quantity (Scalar 2000) nanometer,
          warnings = [''Wavelength range goes from 2000 nm to 2000 nm which is outside the allowable range of 0.5 um to 2 um ''
            @ [CHR 0xC2, CHR 0xB5] @ ''m. [Material: BK7]'']\<rparr>"
  by (simp add: exact_length_def BaseMaterial_check_wavelength_def bk7_def
      less_quantity_def greater_quantity_def compare_def to_root_units_def
      root_factor_values round_to_double_def normalise.simps round_half_even_def
      sample_compact_def sample_digits_def micro_sign_def)

text \<open>
  C2. Whenever a call of the check adds an advisory, the bound is set, as a tuple of the
  declared minimum and maximum or as a two-element quantity holding them in that order,
  the range is not empty, and the message is the template filled with the compact forms
  of the minimum and the maximum of the supplied range, then of the declared minimum and
  the declared maximum, then the micro sign (its two UTF-8 bytes) and \<^verbatim>\<open>m\<close>, then
  the filename. The template does not depend on which boundary is violated.
\<close>

theorem advisory_message_template:
  assumes "BaseMaterial_check_wavelength to_compact s = Inr s'"
    and "warnings s' \<noteq> warnings s"
  shows "\<exists>min_value max_value.
           (wavelength_bound (material s) = Some (BoundTuple min_value max_value)
            \<or> (\<exists>lo hi u.
                  wavelength_bound (material s)
                    = Some (BoundQuantity (Quantity (Array [lo, hi]) u))
                  \<and> min_value = Quantity lo u \<and> max_value = Quantity hi u))
         \<and> set_nd (magnitude (wavelength_range s)) \<noteq> {}
         \<and> warnings s' = warnings s @
             [''Wavelength range goes from ''
              @ to_compact (Quantity (Min (set_nd (magnitude (wavelength_range s))))
                                     (units (wavelength_range s)))
              @ '' to ''
              @ to_compact (Quantity (Max (set_nd (magnitude (wavelength_range s))))
                                     (units (wavelength_range s)))
              @ '' which is outside the allowable range of ''
              @ to_compact min_value @ '' to '' @ to_compact max_value
              @ '' '' @ [CHR 0xC2, CHR 0xB5] @ ''m. [Material: ''
              @ filename (material s) @ '']'']"
proof (cases "wavelength_bound (material s)")
  case None
  with assms show ?thesis by (simp add: check_unset)
next
  case (Some b)
  have filled: ?thesis
    if u: "unpack b = Inr (mn, mx)"
      and shape: "wavelength_bound (material s) = Some (BoundTuple mn mx)
            \<or> (\<exists>lo hi u.
                  wavelength_bound (material s)
                    = Some (BoundQuantity (Quantity (Array [lo, hi]) u))
                  \<and> mn = Quantity lo u \<and> mx = Quantity hi u)"
    for mn mx
  proof (cases "some_element_outside (wavelength_range s) mn mx")
    case True
    from check_outside [OF Some u True, of to_compact] assms(1)
    have "warnings s' = warnings s @
             [''Wavelength range goes from ''
              @ to_compact (Quantity (Min (set_nd (magnitude (wavelength_range s))))
                                     (units (wavelength_range s)))
              @ '' to ''
              @ to_compact (Quantity (Max (set_nd (magnitude (wavelength_range s))))
                                     (units (wavelength_range s)))
              @ '' which is outside the allowable range of ''
              @ to_compact mn @ '' to '' @ to_compact mx
              @ '' '' @ [CHR 0xC2, CHR 0xB5] @ ''m. [Material: ''
              @ filename (material s) @ '']'']"
      by (auto simp: micro_sign_def)
    with shape outside_nonempty [OF True] show ?thesis by blast
  next
    case False
    from check_inside [OF Some u False, of to_compact] assms show ?thesis by simp
  qed
  show ?thesis
  proof (cases b)
    case (BoundTuple mn mx)
    then have "unpack b = Inr (mn, mx)" by simp
    moreover from Some BoundTuple
    have "wavelength_bound (material s) = Some (BoundTuple mn mx)" by simp
    ultimately show ?thesis by (intro filled) simp_all
  next
    case (BoundQuantity q)
    obtain v u where q: "q = Quantity v u" by (cases q)
    show ?thesis
    proof (cases v)
      case (Scalar x)
      with BoundQuantity q have "unpack b = Inl TypeError" by simp
      with Some assms show ?thesis by (simp add: check_unpack_error)
    next
      case (Array xs)
      show ?thesis
      proof (cases "length xs = 2")
        case True
        then obtain lo hi where xs: "xs = [lo, hi]"
          by (cases xs; cases "tl xs") auto
        with BoundQuantity q Array
        have "unpack b = Inr (Quantity lo u, Quantity hi u)" by simp
        moreover from Some BoundQuantity q Array xs
        have "wavelength_bound (material s)
            = Some (BoundQuantity (Quantity (Array [lo, hi]) u))"
          by simp
        ultimately show ?thesis by (intro filled) simp_all
      next
        case False
        with BoundQuantity q Array have "unpack b = Inl ValueError" by simp
        with Some assms show ?thesis by (simp add: check_unpack_error)
      qed
    qed
  qed
qed

theorem advisory_message_template_witness:
  "BaseMaterial_check_wavelength sample_compact
      \<lparr>material = bk7, wavelength_range = Quantity (Array [3, 1]) micrometer, warnings = []\<rparr>
    = Inr \<lparr>material = bk7, wavelength_range = Quantity (Array [3, 1]) micrometer,
        warnings = [''Wavelength range goes from 1 um to 3 um which is outside the allowable range of 0.5 um to 2 um ''
            @ [CHR 0xC2, CHR 0xB5] @ ''m. [Material: BK7]'']\<rparr>
   \<and> set_nd (magnitude (Quantity (Array [3, 1 :: real]) micrometer)) \<noteq> {}"
proof -
  let ?s = "\<lparr>material = bk7, wavelength_range = Quantity (Array [3, 1]) micrometer,
      warnings = []\<rparr>"
  let ?s' = "?s\<lparr>warnings := [''Wavelength range goes from 1 um to 3 um which is outside the allowable range of 0.5 um to 2 um ''
            @ [CHR 0xC2, CHR 0xB5] @ ''m. [Material: BK7]'']\<rparr>"
  have r: "BaseMaterial_check_wavelength sample_compact ?s = Inr ?s'"
    by (simp add: BaseMaterial_check_wavelength_def bk7_def less_quantity_def
        greater_quantity_def compare_def sample_compact_def sample_digits_def micro_sign_def)
  have w: "warnings ?s' \<noteq> warnings ?s" by simp
  from advisory_message_template [OF r w]
  have "set_nd (magnitude (wavelength_range ?s)) \<noteq> {}" by blast
  with r show ?thesis by simp
qed

text \<open>
  C3. The check is advisory only: for a material that satisfies the invariant of the data
  model and any range, also one entirely outside the bounds, the call returns normally
  (no exception), and the material and the argument are the same after the call as before.
\<close>

theorem check_wavelength_advisory_only:
  assumes "bound_invariant (material s)"
  shows "\<exists>s'. BaseMaterial_check_wavelength to_compact s = Inr s'
           \<and> material s' = material s \<and> wavelength_range s' = wavelength_range s"
proof (cases "wavelength_bound (material s)")
  case None
  then show ?thesis by (simp add: check_unset)
next
  case (Some b)
  with assms have "holds_two_values b" by (simp add: bound_invariant_def)
  then obtain lo hi where u: "unpack b = Inr (lo, hi)"
    using unpack_two_values by blast
  show ?thesis
  proof (cases "some_element_outside (wavelength_range s) lo hi")
    case True
    from check_outside [OF Some u True, of to_compact] show ?thesis by simp
  next
    case False
    from check_inside [OF Some u False, of to_compact] show ?thesis by simp
  qed
qed

theorem check_wavelength_advisory_only_witness:
  "bound_invariant \<lparr>filename = ''BK7'',
      wavelength_bound = Some (BoundTuple (Quantity (1 / 2) micrometer) (Quantity 2 micrometer))\<rparr>
   \<and> some_element_outside (Quantity (Scalar 3) micrometer)
        (Quantity (1 / 2) micrometer) (Quantity 2 micrometer)
   \<and> (\<exists>s'. BaseMaterial_check_wavelength unit_name
          \<lparr>material = \<lparr>filename = ''BK7'',
              wavelength_bound = Some (BoundTuple (Quantity (1 / 2) micrometer) (Quantity 2 micrometer))\<rparr>,
           wavelength_range = Quantity (Scalar 3) micrometer, warnings = []\<rparr> = Inr s'
        \<and> material s' = \<lparr>filename = ''BK7'',
              wavelength_bound = Some (BoundTuple (Quantity (1 / 2) micrometer) (Quantity 2 micrometer))\<rparr>
        \<and> wavelength_range s' = Quantity (Scalar 3) micrometer)"
proof -
  let ?m = "\<lparr>filename = ''BK7'',
      wavelength_bound = Some (BoundTuple (Quantity (1 / 2) micrometer) (Quantity 2 micrometer))\<rparr>"
  let ?s = "\<lparr>material = ?m, wavelength_range = Quantity (Scalar 3) micrometer, warnings = []\<rparr>"
  have h: "bound_invariant (material ?s)" by (simp add: bound_invariant_def)
  have o: "some_element_outside (Quantity (Scalar 3) micrometer)
        (Quantity (1 / 2) micrometer) (Quantity 2 micrometer)"
    by (simp add: some_element_outside_def strictly_less_def)
  from check_wavelength_advisory_only [OF h, of unit_name] h o show ?thesis by simp
qed

text \<open>
  C8 (amended). For a material with a bound, as a tuple or as a two-element quantity, and
  a range with an element outside it, two calls in sequence with the same inputs each
  call \<^verbatim>\<open>warnings.warn\<close> with the same message: the check keeps no memo of its own.
  Under the default filter of the interpreter the second call shows nothing, and the
  first shows the message when it has not been issued before.
\<close>

theorem check_wavelength_twice:
  assumes "wavelength_bound (material s) = Some (BoundTuple min_value max_value)
           \<or> (\<exists>lo hi u.
                 wavelength_bound (material s)
                   = Some (BoundQuantity (Quantity (Array [lo, hi]) u))
                 \<and> min_value = Quantity lo u \<and> max_value = Quantity hi u)"
    and "some_element_outside (wavelength_range s) min_value max_value"
  shows "\<exists>msg s1 s2.
           BaseMaterial_check_wavelength to_compact s = Inr s1
         \<and> BaseMaterial_check_wavelength to_compact s1 = Inr s2
         \<and> warnings s1 = warnings s @ [msg]
         \<and> warnings s2 = warnings s @ [msg, msg]
         \<and> shown_by_default (warnings s2) = shown_by_default (warnings s1)
         \<and> (msg \<notin> set (warnings s) \<longrightarrow>
              shown_by_default (warnings s1) = shown_by_default (warnings s) @ [msg])"
proof -
  from assms(1) obtain b where b: "wavelength_bound (material s) = Some b"
    and u: "unpack b = Inr (min_value, max_value)"
    by auto
  from check_outside [OF b u assms(2), of to_compact]
  obtain msg where 1: "BaseMaterial_check_wavelength to_compact s
        = Inr (s\<lparr>warnings := warnings s @ [msg]\<rparr>)"
    and msg: "msg = ''Wavelength range goes from ''
        @ to_compact (Quantity (Min (set_nd (magnitude (wavelength_range s))))
                               (units (wavelength_range s)))
        @ '' to ''
        @ to_compact (Quantity (Max (set_nd (magnitude (wavelength_range s))))
                               (units (wavelength_range s)))
        @ '' which is outside the allowable range of ''
        @ to_compact min_value @ '' to '' @ to_compact max_value
        @ '' '' @ micro_sign @ ''m. [Material: '' @ filename (material s) @ '']''"
    by simp
  let ?s1 = "s\<lparr>warnings := warnings s @ [msg]\<rparr>"
  let ?s2 = "?s1\<lparr>warnings := warnings ?s1 @ [msg]\<rparr>"
  have b1: "wavelength_bound (material ?s1) = Some b" using b by simp
  have o1: "some_element_outside (wavelength_range ?s1) min_value max_value"
    using assms(2) by simp
  from check_outside [OF b1 u o1, of to_compact] msg
  have 2: "BaseMaterial_check_wavelength to_compact ?s1 = Inr ?s2"
    by simp
  have 3: "shown_by_default (warnings ?s2) = shown_by_default (warnings ?s1)"
    by (simp add: shown_repeat)
  have 4: "msg \<notin> set (warnings s) \<longrightarrow>
      shown_by_default (warnings ?s1) = shown_by_default (warnings s) @ [msg]"
    by (simp add: shown_first)
  from 1 2 3 4 show ?thesis
    by (intro exI [of _ msg] exI [of _ ?s1] exI [of _ ?s2]) simp
qed

theorem check_wavelength_twice_witness:
  "wavelength_bound bk7 = Some (BoundQuantity (Quantity (Array [1 / 2, 2]) micrometer))
   \<and> some_element_outside (Quantity (Array [1, 3]) micrometer)
        (Quantity (1 / 2) micrometer) (Quantity 2 micrometer)
   \<and> (\<exists>msg s1 s2.
         BaseMaterial_check_wavelength sample_compact
           \<lparr>material = bk7, wavelength_range = Quantity (Array [1, 3]) micrometer,
            warnings = []\<rparr> = Inr s1
       \<and> BaseMaterial_check_wavelength sample_compact s1 = Inr s2
       \<and> warnings s1 = [msg] \<and> warnings s2 = [msg, msg]
       \<and> shown_by_default (warnings s2) = [msg])"
proof -
  let ?s = "\<lparr>material = bk7, wavelength_range = Quantity (Array [1, 3]) micrometer,
      warnings = []\<rparr>"
  have w: "wavelength_bound bk7 = Some (BoundQuantity (Quantity (Array [1 / 2, 2]) micrometer))"
    by (simp add: bk7_def)
  then have b: "wavelength_bound (material ?s) = Some (BoundTuple (Quantity (1 / 2) micrometer) (Quantity 2 micrometer))
           \<or> (\<exists>lo hi u.
                 wavelength_bound (material ?s)
                   = Some (BoundQuantity (Quantity (Array [lo, hi]) u))
                 \<and> Quantity (1 / 2) micrometer = Quantity lo u
                 \<and> Quantity 2 micrometer = Quantity hi u)"
    by (intro disjI2 exI [of _ "1 / 2"] exI [of _ 2] exI [of _ micrometer]) simp
  have o: "some_element_outside (wavelength_range ?s)
        (Quantity (1 / 2) micrometer) (Quantity 2 micrometer)"
    by (simp add: some_element_outside_def strictly_less_def)
  from check_wavelength_twice [OF b o, of sample_compact]
  obtain msg s1 s2 where "BaseMaterial_check_wavelength sample_compact ?s = Inr s1"
    and "BaseMaterial_check_wavelength sample_compact s1 = Inr s2"
    and "warnings s1 = [msg]" and "warnings s2 = [msg, msg]"
    and "shown_by_default (warnings s2) = shown_by_default (warnings s1)"
    and "shown_by_default (warnings s1) = shown_by_default [] @ [msg]"
    by auto
  moreover have "shown_by_default [] = []" by (simp add: shown_by_default_def)
  ultimately show ?thesis using w o by auto
qed

theorem check_wavelength_shown_once_counterexample:
  "BaseMaterial_check_wavelength sample_compact
      \<lparr>material = bk7, wavelength_range = Quantity (Array [1, 3]) micrometer, warnings = []\<rparr>
    = Inr \<lparr>material = bk7, wavelength_range = Quantity (Array [1, 3]) micrometer,
        warnings = [''Wavelength range goes from 1 um to 3 um which is outside the allowable range of 0.5 um to 2 um ''
            @ [CHR 0xC2, CHR 0xB5] @ ''m. [Material: BK7]'']\<rparr>
   \<and> BaseMaterial_check_wavelength sample_compact
      \<lparr>material = bk7, wavelength_range = Quantity (Array [1, 3]) micrometer,
       warnings = [''Wavelength range goes from 1 um to 3 um which is outside the allowable range of 0.5 um to 2 um ''
            @ [CHR 0xC2, CHR 0xB5] @ ''m. [Material: BK7]'']\<rparr>
    = Inr \<lparr>material = bk7, wavelength_range = Quantity (Array [1, 3]) micrometer,
        warnings = [''Wavelength range goes from 1 um to 3 um which is outside the allowable range of 0.5 um to 2 um ''
            @ [CHR 0xC2, CHR 0xB5] @ ''m. [Material: BK7]'',
          ''Wavelength range goes from 1 um to 3 um which is outside the allowable range of 0.5 um to 2 um ''
            @ [CHR 0xC2, CHR 0xB5] @ ''m. [Material: BK7]'']\<rparr>
   \<and> shown_by_default
        [''Wavelength range goes from 1 um to 3 um which is outside the allowable range of 0.5 um to 2 um ''
            @ [CHR 0xC2, CHR 0xB5] @ ''m. [Material: BK7]'',
         ''Wavelength range goes from 1 um to 3 um which is outside the allowable range of 0.5 um to 2 um ''
            @ [CHR 0xC2, CHR 0xB5] @ ''m. [Material: BK7]'']
      = [''Wavelength range goes from 1 um to 3 um which is outside the allowable range of 0.5 um to 2 um ''
            @ [CHR 0xC2, CHR 0xB5] @ ''m. [Material: BK7]'']"
  by (simp add: BaseMaterial_check_wavelength_def bk7_def less_quantity_def
      greater_quantity_def compare_def sample_compact_def sample_digits_def micro_sign_def
      shown_by_default_def)

subsection \<open>The decorator\<close>

text \<open>
  C5 (amended). For a material whose \<^verbatim>\<open>wavelength_bound\<close> is a single quantity with
  an array magnitude of at least two elements and unit \<open>u\<close>, a call of a wrapped
  operation with the wavelength omitted passes to the operation a quantity of unit \<open>u\<close>
  whose magnitude has exactly 100 values, the first equal to element 0 of the bound, the
  last equal to element 1, and every two neighbours the same distance apart. The remaining
  arguments are passed as they are and the result of the operation is returned.
\<close>

theorem omitted_wavelength_default_sweep:
  assumes "wavelength_bound m = Some (BoundQuantity (Quantity (Array bs) u))"
    and "2 \<le> length bs"
  shows "\<exists>sweep.
           (\<forall>func args kwargs.
              ensure_units func m PyNone args kwargs = func m (Quantity (Array sweep) u) args kwargs)
         \<and> length sweep = 100
         \<and> sweep ! 0 = bs ! 0
         \<and> sweep ! 99 = bs ! 1
         \<and> (\<forall>i < 99. sweep ! Suc i - sweep ! i = (bs ! 1 - bs ! 0) / 99)"
proof (intro exI [of _ "linspace (bs ! 0) (bs ! 1) 100"] conjI allI impI)
  fix func :: "BaseMaterial \<Rightarrow> real nd quantity \<Rightarrow> 'a \<Rightarrow> 'b \<Rightarrow> py_error + 'c" and args kwargs
  show "ensure_units func m PyNone args kwargs
      = func m (Quantity (Array (linspace (bs ! 0) (bs ! 1) 100)) u) args kwargs"
    by (rule wrapper_omitted_sweep) (rule default_sweep_array [OF assms])
next
  show "length (linspace (bs ! 0) (bs ! 1) 100) = 100" by (rule length_linspace)
next
  show "linspace (bs ! 0) (bs ! 1) 100 ! 0 = bs ! 0" by (simp add: linspace_nth)
next
  show "linspace (bs ! 0) (bs ! 1) 100 ! 99 = bs ! 1"
    using linspace_last [of 100 "bs ! 0" "bs ! 1"] by simp
next
  fix i :: nat assume "i < 99"
  then have "Suc i < 100" by simp
  from linspace_step [OF this, of "bs ! 0" "bs ! 1"]
  show "linspace (bs ! 0) (bs ! 1) 100 ! Suc i - linspace (bs ! 0) (bs ! 1) 100 ! i
      = (bs ! 1 - bs ! 0) / 99"
    by simp
qed

theorem omitted_wavelength_default_sweep_witness:
  "wavelength_bound \<lparr>filename = ''BK7'',
      wavelength_bound = Some (BoundQuantity (Quantity (Array [1 / 2, 2]) micrometer))\<rparr>
     = Some (BoundQuantity (Quantity (Array [1 / 2, 2]) micrometer))
   \<and> 2 \<le> length [1 / 2, 2 :: real]
   \<and> (\<exists>sweep. ensure_units echo_wavelength
         \<lparr>filename = ''BK7'',
          wavelength_bound = Some (BoundQuantity (Quantity (Array [1 / 2, 2]) micrometer))\<rparr>
         PyNone () () = Inr (Quantity (Array sweep) micrometer)
       \<and> length sweep = 100 \<and> sweep ! 0 = 1 / 2 \<and> sweep ! 99 = 2
       \<and> sweep ! 1 - sweep ! 0 = 1 / 66)"
proof -
  let ?m = "\<lparr>filename = ''BK7'',
      wavelength_bound = Some (BoundQuantity (Quantity (Array [1 / 2, 2]) micrometer))\<rparr>"
  have b: "wavelength_bound ?m = Some (BoundQuantity (Quantity (Array [1 / 2, 2]) micrometer))"
    by simp
  have l: "2 \<le> length [1 / 2, 2 :: real]" by simp
  from omitted_wavelength_default_sweep [OF b l]
  obtain sweep where d: "\<And>(func :: BaseMaterial \<Rightarrow> real nd quantity \<Rightarrow> unit \<Rightarrow> unit \<Rightarrow> py_error + real nd quantity) args kwargs.
        ensure_units func ?m PyNone args kwargs = func ?m (Quantity (Array sweep) micrometer) args kwargs"
    and n: "length sweep = 100" and f: "sweep ! 0 = [1 / 2, 2] ! 0" and e: "sweep ! 99 = [1 / 2, 2] ! 1"
    and st: "\<forall>i < 99. sweep ! Suc i - sweep ! i = ([1 / 2, 2] ! 1 - [1 / 2, 2] ! 0) / 99"
    by blast
  from d [of echo_wavelength "()" "()"]
  have 1: "ensure_units echo_wavelength ?m PyNone () () = Inr (Quantity (Array sweep) micrometer)"
    by (simp add: echo_wavelength_def)
  from st have "sweep ! Suc 0 - sweep ! 0 = ([1 / 2, 2] ! 1 - [1 / 2, 2] ! 0) / 99" by simp
  then have 2: "sweep ! 1 - sweep ! 0 = 1 / 66" by simp
  from 1 n f e 2 show ?thesis by auto
qed

theorem omitted_wavelength_tuple_bound_counterexample:
  "ensure_units echo_wavelength
     \<lparr>filename = ''BK7'',
      wavelength_bound = Some (BoundTuple (Quantity (1 / 2) micrometer) (Quantity 2 micrometer))\<rparr>
     PyNone () () = Inl AttributeError"
  by (simp add: ensure_units_def wrapper_def default_sweep_def)

text \<open>
  C6. A wrapped operation called with a bare number or a bare array receives that value
  with the unit meter attached.
\<close>

theorem bare_wavelength_in_meters:
  "ensure_units func m (Bare x) args kwargs = func m (Quantity x meter) args kwargs"
  by (simp add: ensure_units_def wrapper_def)

theorem bare_wavelength_in_meters_witness:
  "ensure_units echo_wavelength \<lparr>filename = ''BK7'', wavelength_bound = None\<rparr>
     (Bare (Scalar (155 / 100))) () () = Inr (Quantity (Scalar (155 / 100)) meter)"
  using bare_wavelength_in_meters
    [of echo_wavelength "\<lparr>filename = ''BK7'', wavelength_bound = None\<rparr>" "Scalar (155 / 100)" "()" "()"]
  by (simp add: echo_wavelength_def)

text \<open>
  C7. A wrapped operation called with a quantity receives that quantity, magnitude and unit
  unchanged, together with the remaining positional and keyword arguments; the wrapper
  returns what the operation returns.
\<close>

theorem quantity_wavelength_passes_through:
  "ensure_units func m (Qty q) args kwargs = func m q args kwargs"
  by (simp add: ensure_units_def wrapper_def)

theorem quantity_wavelength_passes_through_witness:
  "ensure_units echo_wavelength \<lparr>filename = ''BK7'', wavelength_bound = None\<rparr>
     (Qty (Quantity (Scalar 1550) nanometer)) () () = Inr (Quantity (Scalar 1550) nanometer)"
  using quantity_wavelength_passes_through
    [of echo_wavelength "\<lparr>filename = ''BK7'', wavelength_bound = None\<rparr>"
        "Quantity (Scalar 1550) nanometer" "()" "()"]
  by (simp add: echo_wavelength_def)

text \<open>
  C9. For a material whose \<^verbatim>\<open>wavelength_bound\<close> is unset, a call of a wrapped
  operation with the wavelength omitted fails with the \<^verbatim>\<open>TypeError\<close> of subscripting
  \<^verbatim>\<open>None\<close>, whatever the wrapped operation is: the operation is not reached.
\<close>

theorem omitted_wavelength_unset_bound:
  assumes "wavelength_bound m = None"
  shows "ensure_units func m PyNone args kwargs = Inl TypeError"
  by (rule wrapper_omitted_error) (rule default_sweep_None [OF assms])

theorem omitted_wavelength_unset_bound_witness:
  "wavelength_bound \<lparr>filename = ''vacuum'', wavelength_bound = None\<rparr> = None
   \<and> ensure_units echo_wavelength \<lparr>filename = ''vacuum'', wavelength_bound = None\<rparr> PyNone () ()
       = Inl TypeError"
  using omitted_wavelength_unset_bound
    [of "\<lparr>filename = ''vacuum'', wavelength_bound = None\<rparr>" echo_wavelength "()" "()"]
  by simp

text \<open>
  C10 (amended). The default sweep reads \<^verbatim>\<open>.units\<close> on \<^verbatim>\<open>wavelength_bound\<close>
  itself. For a material whose bound is a plain tuple of two quantities, a call with the
  wavelength omitted fails with \<^verbatim>\<open>AttributeError\<close>, whatever the wrapped operation
  is. The call reaches the wrapped operation exactly when the bound is a single quantity
  whose magnitude is an array of at least two elements; elements after the second are
  not read.
\<close>

theorem default_sweep_needs_quantity_bound:
  "(\<forall>lo hi. wavelength_bound m = Some (BoundTuple lo hi) \<longrightarrow>
      (\<forall>func args kwargs. ensure_units func m PyNone args kwargs = Inl AttributeError))
   \<and> ((\<exists>w. \<forall>args kwargs func.
           ensure_units func m PyNone args kwargs = func m w args kwargs)
        \<longleftrightarrow> (\<exists>bs u. wavelength_bound m = Some (BoundQuantity (Quantity (Array bs) u))
                     \<and> 2 \<le> length bs))"
proof (intro conjI allI impI)
  fix lo hi :: "real quantity" and args :: 'a and kwargs :: 'k
    and func :: "BaseMaterial \<Rightarrow> real nd quantity \<Rightarrow> 'a \<Rightarrow> 'k \<Rightarrow> py_error + 'r"
  assume "wavelength_bound m = Some (BoundTuple lo hi)"
  then have "default_sweep m = Inl AttributeError" by (rule default_sweep_tuple)
  then show "ensure_units func m PyNone args kwargs = Inl AttributeError"
    by (rule wrapper_omitted_error)
next
  show "(\<exists>w. \<forall>args kwargs func.
           ensure_units func m PyNone args kwargs = func m w args kwargs)
        \<longleftrightarrow> (\<exists>bs u. wavelength_bound m = Some (BoundQuantity (Quantity (Array bs) u))
                     \<and> 2 \<le> length bs)"
    by (simp only: delegates_iff default_sweep_succeeds_iff)
qed

theorem default_sweep_needs_quantity_bound_witness:
  "wavelength_bound \<lparr>filename = ''BK7'',
      wavelength_bound = Some (BoundTuple (Quantity (1 / 2) micrometer) (Quantity 2 micrometer))\<rparr>
     = Some (BoundTuple (Quantity (1 / 2) micrometer) (Quantity 2 micrometer))
   \<and> ensure_units echo_wavelength
       \<lparr>filename = ''BK7'',
        wavelength_bound = Some (BoundTuple (Quantity (1 / 2) micrometer) (Quantity 2 micrometer))\<rparr>
       PyNone () () = Inl AttributeError"
proof -
  let ?m = "\<lparr>filename = ''BK7'',
      wavelength_bound = Some (BoundTuple (Quantity (1 / 2) micrometer) (Quantity 2 micrometer))\<rparr>"
  from default_sweep_needs_quantity_bound [of ?m]
  have "\<forall>lo hi. wavelength_bound ?m = Some (BoundTuple lo hi) \<longrightarrow>
            (\<forall>(func :: BaseMaterial \<Rightarrow> real nd quantity \<Rightarrow> unit \<Rightarrow> unit \<Rightarrow> py_error + real nd quantity) args kwargs.
               ensure_units func ?m PyNone args kwargs = Inl AttributeError)"
    by (rule conjunct1)
  then have "ensure_units echo_wavelength ?m PyNone () () = Inl AttributeError" by simp
  then show ?thesis by simp
qed

theorem three_element_bound_counterexample:
  "ensure_units echo_wavelength
     \<lparr>filename = ''BK7'',
      wavelength_bound = Some (BoundQuantity (Quantity (Array [1 / 2, 2, 3]) micrometer))\<rparr>
     PyNone () ()
   = Inr (Quantity (Array (linspace (1 / 2) 2 100)) micrometer)"
  by (simp add: ensure_units_def wrapper_def default_sweep_def echo_wavelength_def)

end
